theory Spec2Isabelle
  imports Main "HOL-Library.Word"
begin

section \<open>shared/src/makeMap.ts\<close>

text \<open>
  A JavaScript string is a sequence of UTF-16 code units, so a string is a list of 16-bit
  words: length, equality and splitting count what the source counts. A string of ASCII
  characters is written \<open>units ''abc''\<close>: every character is its own code unit.
\<close>

type_synonym code_unit = "16 word"

type_synonym js_string = "code_unit list"

definition units :: "string \<Rightarrow> js_string" where
  "units s = map of_char s"

text \<open>
  \<^verbatim>\<open>str.split(',')\<close>: the pieces of \<open>str\<close> between its commas, in order. The empty
  string gives one empty piece, and a comma at either end gives an empty piece there.
\<close>

definition comma :: code_unit where
  "comma = of_char CHR '',''"

fun split_comma :: "js_string \<Rightarrow> js_string list" where
  "split_comma [] = [[]]"
| "split_comma (c # cs) =
     (if c = comma then [] # split_comma cs
      else (case split_comma cs of
              [] \<Rightarrow> [[c]]
            | w # ws \<Rightarrow> (c # w) # ws))"

text \<open>
  The loop \<^verbatim>\<open>for (let i = 0; i < list.length; i++) map[list[i]] = true\<close> over the
  record \<open>map\<close>, which has no prototype (\<^verbatim>\<open>Object.create(null)\<close>) and so holds
  exactly the keys written to it.
\<close>

function makeMap_loop ::
  "js_string list \<Rightarrow> nat \<Rightarrow> (js_string \<rightharpoonup> bool) \<Rightarrow> (js_string \<rightharpoonup> bool)" where
  "makeMap_loop list i m =
     (if i < length list then makeMap_loop list (i + 1) (m(list ! i \<mapsto> True)) else m)"
  by pat_completeness auto
termination
  by (relation "measure (\<lambda>(list, i, m). length list - i)") auto

declare makeMap_loop.simps [simp del]

text \<open>\<^verbatim>\<open>!!x\<close> for a property read: a missing property is \<open>undefined\<close>, which is falsy.\<close>

fun double_not :: "bool option \<Rightarrow> bool" where
  "double_not None = False"
| "double_not (Some b) = b"

text \<open>
  The optional parameter \<open>expectsLowerCase\<close> is \<open>None\<close> when the caller leaves it out;
  the conditional takes its first branch only when the value is truthy.
\<close>

fun truthy :: "bool option \<Rightarrow> bool" where
  "truthy None = False"
| "truthy (Some b) = b"

text \<open>
  \<^verbatim>\<open>val.toLowerCase()\<close> is the method of the platform's strings, which follows the
  Unicode case mappings: it may change any code unit and the length of the string. It is
  the first argument of \<open>makeMap\<close> here, so that what is proved holds for every string of
  code units and whatever the method does to it.
\<close>

definition makeMap ::
  "(js_string \<Rightarrow> js_string) \<Rightarrow> js_string \<Rightarrow> bool option \<Rightarrow> js_string \<Rightarrow> bool" where
  "makeMap toLowerCase str expectsLowerCase =
     (let map = makeMap_loop (split_comma str) 0 Map.empty
      in if truthy expectsLowerCase
         then (\<lambda>val. double_not (map (toLowerCase val)))
         else (\<lambda>val. double_not (map val)))"

text \<open>Joining the pieces with commas gives the string back: nothing is lost or added.\<close>

fun join_comma :: "js_string list \<Rightarrow> js_string" where
  "join_comma [] = []"
| "join_comma [w] = w"
| "join_comma (w # v # ws) = w @ comma # join_comma (v # ws)"

text \<open>
  What \<open>toLowerCase\<close> does to a string of ASCII characters: the letters A to Z move up by
  32 and every other code unit stays. It stands in for the method where a concrete one
  is needed.
\<close>

definition ascii_lower_unit :: "code_unit \<Rightarrow> code_unit" where
  "ascii_lower_unit c = (if 0x41 \<le> c \<and> c \<le> 0x5A then c + 0x20 else c)"

definition ascii_lower :: "js_string \<Rightarrow> js_string" where
  "ascii_lower s = map ascii_lower_unit s"

section \<open>The package entry modules\<close>

text \<open>
  \<^verbatim>\<open>compiler-ssr/index.js\<close> and the entry module of the template explorer. \<open>process.env\<close>
  maps the names of the environment variables to strings; a variable that is not set reads
  as \<open>undefined\<close> (\<open>None\<close>). \<open>module.exports\<close> becomes the module that \<open>require\<close> loads:
  the model returns the specifier handed to \<open>require\<close>.
\<close>

type_synonym process_env = "string \<rightharpoonup> string"

definition compiler_ssr_index :: "process_env \<Rightarrow> string" where
  "compiler_ssr_index env =
     (if env ''NODE_ENV'' = Some ''production''
      then ''./dist/compiler-ssr.cjs.prod.js''
      else ''./dist/compiler-ssr.cjs.js'')"

definition template_explorer_index :: "process_env \<Rightarrow> string" where
  "template_explorer_index env =
     (if env ''NODE_ENV'' = Some ''production''
      then ''./dist/template-explorer.cjs.prod.js''
      else ''./dist/template-explorer.cjs.js'')"

text \<open>An environment cut down to the one variable \<open>NODE_ENV\<close>.\<close>

definition only_NODE_ENV :: "process_env \<Rightarrow> process_env" where
  "only_NODE_ENV env = (\<lambda>name. if name = ''NODE_ENV'' then env name else None)"

section \<open>compiler-core/src/index.ts: the node model\<close>

datatype NodeTypes =
    ROOT | ELEMENT | TEXT | COMMENT | SIMPLE_EXPRESSION | INTERPOLATION | ATTRIBUTE | DIRECTIVE
  | COMPOUND_EXPRESSION | IF | IF_BRANCH | FOR | TEXT_CALL
  | VNODE_CALL | JS_CALL_EXPRESSION | JS_OBJECT_EXPRESSION | JS_PROPERTY | JS_ARRAY_EXPRESSION
  | JS_FUNCTION_EXPRESSION | JS_CONDITIONAL_EXPRESSION | JS_CACHE_EXPRESSION
  | JS_BLOCK_STATEMENT | JS_TEMPLATE_LITERAL | JS_IF_STATEMENT | JS_ASSIGNMENT_EXPRESSION
  | JS_SEQUENCE_EXPRESSION | JS_RETURN_STATEMENT

text \<open>
  The enum \<open>ElementTypes\<close>; its members are written with the enum's name, as the source
  refers to them (\<^verbatim>\<open>ElementTypes.ELEMENT\<close>), since \<open>ELEMENT\<close> is a member of
  \<open>NodeTypes\<close> too.
\<close>

datatype ElementTypes =
    ElementTypes_ELEMENT | ElementTypes_COMPONENT | ElementTypes_SLOT | ElementTypes_TEMPLATE

text \<open>Offsets, lines, columns, counters and slot indices are natural numbers.\<close>

record Position =
  offset :: nat
  line :: nat
  column :: nat

record SourceLocation =
  start :: Position
  end' :: Position
  source :: string

text \<open>A JavaScript symbol has an identity and nothing else.\<close>

datatype symbol = Symbol nat

text \<open>
  \<open>ImportItem\<close> and \<open>ForParseResult\<close> are used by the declarations of this file and
  declared elsewhere.
\<close>

typedecl ImportItem
typedecl ForParseResult

text \<open>
  Several fields hold a string, a symbol, a node or an array of these
  (\<^verbatim>\<open>string | symbol | JSChildNode | TemplateChildNode[]\<close> and the like).
\<close>

datatype 'n js_value = JSString string | JSSymbol symbol | JSNode 'n | JSArray "'n js_value list"

text \<open>
  Every interface that extends \<open>Node\<close>, except \<open>RootNode\<close>, is one constructor: first its
  \<open>loc\<close>, then its own fields in the order of the declaration (an optional or
  \<^verbatim>\<open>| undefined\<close> field is an \<open>option\<close>). The field \<open>type\<close> is fixed by the interface and
  is read by \<open>node_type\<close> below, and so is \<open>tagType\<close> of the four element interfaces. A
  field whose type is a union of interfaces holds a \<open>node\<close>; the union it is declared
  with is checked by \<open>conforms\<close>. \<open>TemplateNode\<close> declares \<^verbatim>\<open>codegenNode: undefined\<close>, so
  it has no such field to fill.
\<close>

datatype node =
    PlainElementNode SourceLocation nat string bool "node list" "node list"
      "node option" "node option"
  | ComponentNode SourceLocation nat string bool "node list" "node list"
      "node option" "node option"
  | SlotOutletNode SourceLocation nat string bool "node list" "node list"
      "node option" "node option"
  | TemplateNode SourceLocation nat string bool "node list" "node list"
  | TextNode SourceLocation string
  | CommentNode SourceLocation string
  | AttributeNode SourceLocation string "node option"
  | DirectiveNode SourceLocation string "node option" "node option" "string list"
      "ForParseResult option"
  | SimpleExpressionNode SourceLocation string bool bool "node option" "string list option"
      "bool option"
  | InterpolationNode SourceLocation node
  | CompoundExpressionNode SourceLocation "node js_value list" "string list option"
  | IfNode SourceLocation "node list" "node option"
  | IfBranchNode SourceLocation "node option" "node list"
  | ForNode SourceLocation node "node option" "node option" "node option" ForParseResult
      "node list" "node option"
  | TextCallNode SourceLocation node node
  | VNodeCall SourceLocation "node js_value" "node option" "node js_value option"
      "string option" "string option" "node option" bool bool
  | CallExpression SourceLocation "string + symbol" "node js_value list"
  | ObjectExpression SourceLocation "node list"
  | Property SourceLocation node node
  | ArrayExpression SourceLocation "node js_value list"
  | FunctionExpression SourceLocation "node js_value option" "node js_value option"
      "node option" bool bool
  | ConditionalExpression SourceLocation node node node bool
  | CacheExpression SourceLocation nat node bool
  | BlockStatement SourceLocation "node list"
  | TemplateLiteral SourceLocation "node js_value list"
  | IfStatement SourceLocation node node "node option"
  | AssignmentExpression SourceLocation node node
  | SequenceExpression SourceLocation "node list"
  | ReturnStatement SourceLocation "node js_value"

text \<open>
  The equations below name the fields of each interface in the order of the constructor's
  arguments (\<open>val\<close> is the field \<open>value\<close> and \<open>src\<close> the field \<open>source\<close>).
\<close>

text \<open>The field \<open>type\<close> of a node.\<close>

primrec node_type :: "node \<Rightarrow> NodeTypes" where
  "node_type (PlainElementNode l ns tag isSelfClosing props children codegenNode ssrCodegenNode) =
     ELEMENT"
| "node_type (ComponentNode l ns tag isSelfClosing props children codegenNode ssrCodegenNode) =
     ELEMENT"
| "node_type (SlotOutletNode l ns tag isSelfClosing props children codegenNode ssrCodegenNode) =
     ELEMENT"
| "node_type (TemplateNode l ns tag isSelfClosing props children) = ELEMENT"
| "node_type (TextNode l content) = TEXT"
| "node_type (CommentNode l content) = COMMENT"
| "node_type (AttributeNode l name val) = ATTRIBUTE"
| "node_type (DirectiveNode l name exp arg modifiers parseResult) = DIRECTIVE"
| "node_type (SimpleExpressionNode l content isStatic isConstant hoisted identifiers
      isRuntimeConstant) =
     SIMPLE_EXPRESSION"
| "node_type (InterpolationNode l content) = INTERPOLATION"
| "node_type (CompoundExpressionNode l children identifiers) = COMPOUND_EXPRESSION"
| "node_type (IfNode l branches codegenNode) = IF"
| "node_type (IfBranchNode l condition children) = IF_BRANCH"
| "node_type (ForNode l src valueAlias keyAlias objectIndexAlias parseResult children codegenNode) =
     FOR"
| "node_type (TextCallNode l content codegenNode) = TEXT_CALL"
| "node_type (VNodeCall l tag props children patchFlag dynamicProps directives isBlock isForBlock) =
     VNODE_CALL"
| "node_type (CallExpression l callee arguments) = JS_CALL_EXPRESSION"
| "node_type (ObjectExpression l properties) = JS_OBJECT_EXPRESSION"
| "node_type (Property l key val) = JS_PROPERTY"
| "node_type (ArrayExpression l elements) = JS_ARRAY_EXPRESSION"
| "node_type (FunctionExpression l params returns body newline isSlot) = JS_FUNCTION_EXPRESSION"
| "node_type (ConditionalExpression l test consequent alternate newline) =
     JS_CONDITIONAL_EXPRESSION"
| "node_type (CacheExpression l index val isVNode) = JS_CACHE_EXPRESSION"
| "node_type (BlockStatement l body) = JS_BLOCK_STATEMENT"
| "node_type (TemplateLiteral l elements) = JS_TEMPLATE_LITERAL"
| "node_type (IfStatement l test consequent alternate) = JS_IF_STATEMENT"
| "node_type (AssignmentExpression l left right) = JS_ASSIGNMENT_EXPRESSION"
| "node_type (SequenceExpression l expressions) = JS_SEQUENCE_EXPRESSION"
| "node_type (ReturnStatement l returns) = JS_RETURN_STATEMENT"

text \<open>The field \<open>loc\<close> that every interface inherits from \<open>Node\<close>.\<close>

primrec node_loc :: "node \<Rightarrow> SourceLocation" where
  "node_loc (PlainElementNode l ns tag isSelfClosing props children codegenNode ssrCodegenNode) =
     l"
| "node_loc (ComponentNode l ns tag isSelfClosing props children codegenNode ssrCodegenNode) = l"
| "node_loc (SlotOutletNode l ns tag isSelfClosing props children codegenNode ssrCodegenNode) = l"
| "node_loc (TemplateNode l ns tag isSelfClosing props children) = l"
| "node_loc (TextNode l content) = l"
| "node_loc (CommentNode l content) = l"
| "node_loc (AttributeNode l name val) = l"
| "node_loc (DirectiveNode l name exp arg modifiers parseResult) = l"
| "node_loc (SimpleExpressionNode l content isStatic isConstant hoisted identifiers
      isRuntimeConstant) =
     l"
| "node_loc (InterpolationNode l content) = l"
| "node_loc (CompoundExpressionNode l children identifiers) = l"
| "node_loc (IfNode l branches codegenNode) = l"
| "node_loc (IfBranchNode l condition children) = l"
| "node_loc (ForNode l src valueAlias keyAlias objectIndexAlias parseResult children codegenNode) =
     l"
| "node_loc (TextCallNode l content codegenNode) = l"
| "node_loc (VNodeCall l tag props children patchFlag dynamicProps directives isBlock isForBlock) =
     l"
| "node_loc (CallExpression l callee arguments) = l"
| "node_loc (ObjectExpression l properties) = l"
| "node_loc (Property l key val) = l"
| "node_loc (ArrayExpression l elements) = l"
| "node_loc (FunctionExpression l params returns body newline isSlot) = l"
| "node_loc (ConditionalExpression l test consequent alternate newline) = l"
| "node_loc (CacheExpression l index val isVNode) = l"
| "node_loc (BlockStatement l body) = l"
| "node_loc (TemplateLiteral l elements) = l"
| "node_loc (IfStatement l test consequent alternate) = l"
| "node_loc (AssignmentExpression l left right) = l"
| "node_loc (SequenceExpression l expressions) = l"
| "node_loc (ReturnStatement l returns) = l"

text \<open>
  The field \<open>tagType\<close> of the element interfaces; a node of another interface has no
  such property (\<open>None\<close>, the \<open>undefined\<close> that reading it gives).
\<close>

primrec tagType :: "node \<Rightarrow> ElementTypes option" where
  "tagType (PlainElementNode l ns tag isSelfClosing props children codegenNode ssrCodegenNode) =
     Some ElementTypes_ELEMENT"
| "tagType (ComponentNode l ns tag isSelfClosing props children codegenNode ssrCodegenNode) =
     Some ElementTypes_COMPONENT"
| "tagType (SlotOutletNode l ns tag isSelfClosing props children codegenNode ssrCodegenNode) =
     Some ElementTypes_SLOT"
| "tagType (TemplateNode l ns tag isSelfClosing props children) = Some ElementTypes_TEMPLATE"
| "tagType (TextNode l content) = None"
| "tagType (CommentNode l content) = None"
| "tagType (AttributeNode l name val) = None"
| "tagType (DirectiveNode l name exp arg modifiers parseResult) = None"
| "tagType (SimpleExpressionNode l content isStatic isConstant hoisted identifiers
      isRuntimeConstant) =
     None"
| "tagType (InterpolationNode l content) = None"
| "tagType (CompoundExpressionNode l children identifiers) = None"
| "tagType (IfNode l branches codegenNode) = None"
| "tagType (IfBranchNode l condition children) = None"
| "tagType (ForNode l src valueAlias keyAlias objectIndexAlias parseResult children codegenNode) =
     None"
| "tagType (TextCallNode l content codegenNode) = None"
| "tagType (VNodeCall l tag props children patchFlag dynamicProps directives isBlock isForBlock) =
     None"
| "tagType (CallExpression l callee arguments) = None"
| "tagType (ObjectExpression l properties) = None"
| "tagType (Property l key val) = None"
| "tagType (ArrayExpression l elements) = None"
| "tagType (FunctionExpression l params returns body newline isSlot) = None"
| "tagType (ConditionalExpression l test consequent alternate newline) = None"
| "tagType (CacheExpression l index val isVNode) = None"
| "tagType (BlockStatement l body) = None"
| "tagType (TemplateLiteral l elements) = None"
| "tagType (IfStatement l test consequent alternate) = None"
| "tagType (AssignmentExpression l left right) = None"
| "tagType (SequenceExpression l expressions) = None"
| "tagType (ReturnStatement l returns) = None"

text \<open>
  Reading \<open>codegenNode\<close> off a node: \<open>None\<close> is \<open>undefined\<close>, which is what the read
  gives for \<open>TemplateNode\<close> and for the interfaces without the property.
\<close>

primrec node_codegenNode :: "node \<Rightarrow> node option" where
  "node_codegenNode (PlainElementNode l ns tag isSelfClosing props children codegenNode
      ssrCodegenNode) =
     codegenNode"
| "node_codegenNode (ComponentNode l ns tag isSelfClosing props children codegenNode
      ssrCodegenNode) =
     codegenNode"
| "node_codegenNode (SlotOutletNode l ns tag isSelfClosing props children codegenNode
      ssrCodegenNode) =
     codegenNode"
| "node_codegenNode (TemplateNode l ns tag isSelfClosing props children) = None"
| "node_codegenNode (TextNode l content) = None"
| "node_codegenNode (CommentNode l content) = None"
| "node_codegenNode (AttributeNode l name val) = None"
| "node_codegenNode (DirectiveNode l name exp arg modifiers parseResult) = None"
| "node_codegenNode (SimpleExpressionNode l content isStatic isConstant hoisted identifiers
      isRuntimeConstant) =
     None"
| "node_codegenNode (InterpolationNode l content) = None"
| "node_codegenNode (CompoundExpressionNode l children identifiers) = None"
| "node_codegenNode (IfNode l branches codegenNode) = codegenNode"
| "node_codegenNode (IfBranchNode l condition children) = None"
| "node_codegenNode (ForNode l src valueAlias keyAlias objectIndexAlias parseResult children
      codegenNode) =
     codegenNode"
| "node_codegenNode (TextCallNode l content codegenNode) = Some codegenNode"
| "node_codegenNode (VNodeCall l tag props children patchFlag dynamicProps directives isBlock
      isForBlock) =
     None"
| "node_codegenNode (CallExpression l callee arguments) = None"
| "node_codegenNode (ObjectExpression l properties) = None"
| "node_codegenNode (Property l key val) = None"
| "node_codegenNode (ArrayExpression l elements) = None"
| "node_codegenNode (FunctionExpression l params returns body newline isSlot) = None"
| "node_codegenNode (ConditionalExpression l test consequent alternate newline) = None"
| "node_codegenNode (CacheExpression l index val isVNode) = None"
| "node_codegenNode (BlockStatement l body) = None"
| "node_codegenNode (TemplateLiteral l elements) = None"
| "node_codegenNode (IfStatement l test consequent alternate) = None"
| "node_codegenNode (AssignmentExpression l left right) = None"
| "node_codegenNode (SequenceExpression l expressions) = None"
| "node_codegenNode (ReturnStatement l returns) = None"

text \<open>The nodes inside a field value, in order.\<close>

primrec nodes_of :: "'n js_value \<Rightarrow> 'n list" where
  "nodes_of (JSString s) = []"
| "nodes_of (JSSymbol s) = []"
| "nodes_of (JSNode n) = [n]"
| "nodes_of (JSArray vs) = concat (map nodes_of vs)"

definition option_nodes :: "'n option \<Rightarrow> 'n list" where
  "option_nodes x = (case x of None \<Rightarrow> [] | Some n \<Rightarrow> [n])"

definition option_values :: "'n js_value option \<Rightarrow> 'n list" where
  "option_values x = (case x of None \<Rightarrow> [] | Some v \<Rightarrow> nodes_of v)"

text \<open>
  The nodes that a node holds itself, in its own fields: a field of an interface type holds
  the node (in JavaScript a reference to the object), a field of type \<open>number\<close>,
  \<open>string\<close> or \<open>boolean\<close> holds none.
\<close>

primrec held_nodes :: "node \<Rightarrow> node list" where
  "held_nodes (PlainElementNode l ns tag isSelfClosing props children codegenNode ssrCodegenNode) =
     props @ children @ option_nodes codegenNode @ option_nodes ssrCodegenNode"
| "held_nodes (ComponentNode l ns tag isSelfClosing props children codegenNode ssrCodegenNode) =
     props @ children @ option_nodes codegenNode @ option_nodes ssrCodegenNode"
| "held_nodes (SlotOutletNode l ns tag isSelfClosing props children codegenNode ssrCodegenNode) =
     props @ children @ option_nodes codegenNode @ option_nodes ssrCodegenNode"
| "held_nodes (TemplateNode l ns tag isSelfClosing props children) = props @ children"
| "held_nodes (TextNode l content) = []"
| "held_nodes (CommentNode l content) = []"
| "held_nodes (AttributeNode l name val) = option_nodes val"
| "held_nodes (DirectiveNode l name exp arg modifiers parseResult) =
     option_nodes exp @ option_nodes arg"
| "held_nodes (SimpleExpressionNode l content isStatic isConstant hoisted identifiers
      isRuntimeConstant) =
     option_nodes hoisted"
| "held_nodes (InterpolationNode l content) = [content]"
| "held_nodes (CompoundExpressionNode l children identifiers) = concat (map nodes_of children)"
| "held_nodes (IfNode l branches codegenNode) = branches @ option_nodes codegenNode"
| "held_nodes (IfBranchNode l condition children) = option_nodes condition @ children"
| "held_nodes (ForNode l src valueAlias keyAlias objectIndexAlias parseResult children
      codegenNode) =
     src # option_nodes valueAlias @ option_nodes keyAlias @ option_nodes objectIndexAlias
       @ children @ option_nodes codegenNode"
| "held_nodes (TextCallNode l content codegenNode) = [content, codegenNode]"
| "held_nodes (VNodeCall l tag props children patchFlag dynamicProps directives isBlock
      isForBlock) =
     nodes_of tag @ option_nodes props @ option_values children @ option_nodes directives"
| "held_nodes (CallExpression l callee arguments) = concat (map nodes_of arguments)"
| "held_nodes (ObjectExpression l properties) = properties"
| "held_nodes (Property l key val) = [key, val]"
| "held_nodes (ArrayExpression l elements) = concat (map nodes_of elements)"
| "held_nodes (FunctionExpression l params returns body newline isSlot) =
     option_values params @ option_values returns @ option_nodes body"
| "held_nodes (ConditionalExpression l test consequent alternate newline) =
     [test, consequent, alternate]"
| "held_nodes (CacheExpression l index val isVNode) = [val]"
| "held_nodes (BlockStatement l body) = body"
| "held_nodes (TemplateLiteral l elements) = concat (map nodes_of elements)"
| "held_nodes (IfStatement l test consequent alternate) =
     test # consequent # option_nodes alternate"
| "held_nodes (AssignmentExpression l left right) = [left, right]"
| "held_nodes (SequenceExpression l expressions) = expressions"
| "held_nodes (ReturnStatement l returns) = nodes_of returns"

text \<open>The unions of interfaces, as the \<open>type\<close> tags of their members.\<close>

definition of_kind :: "NodeTypes list \<Rightarrow> node \<Rightarrow> bool" where
  "of_kind ks n = (node_type n \<in> set ks)"

definition ExpressionNode :: "NodeTypes list" where
  "ExpressionNode = [SIMPLE_EXPRESSION, COMPOUND_EXPRESSION]"

definition TemplateChildNode :: "NodeTypes list" where
  "TemplateChildNode =
     [ELEMENT, INTERPOLATION, COMPOUND_EXPRESSION, TEXT, COMMENT, IF, IF_BRANCH, FOR, TEXT_CALL]"

definition TemplateTextChildNode :: "NodeTypes list" where
  "TemplateTextChildNode = [TEXT, INTERPOLATION, COMPOUND_EXPRESSION]"

definition JSChildNode :: "NodeTypes list" where
  "JSChildNode =
     [VNODE_CALL, JS_CALL_EXPRESSION, JS_OBJECT_EXPRESSION, JS_ARRAY_EXPRESSION]
     @ ExpressionNode
     @ [JS_FUNCTION_EXPRESSION, JS_CONDITIONAL_EXPRESSION, JS_CACHE_EXPRESSION,
        JS_ASSIGNMENT_EXPRESSION, JS_SEQUENCE_EXPRESSION]"

definition SSRCodegenNode :: "NodeTypes list" where
  "SSRCodegenNode =
     [JS_BLOCK_STATEMENT, JS_TEMPLATE_LITERAL, JS_IF_STATEMENT, JS_ASSIGNMENT_EXPRESSION,
      JS_RETURN_STATEMENT, JS_SEQUENCE_EXPRESSION]"

text \<open>Field values against their declared types.\<close>

definition opt :: "('a \<Rightarrow> bool) \<Rightarrow> 'a option \<Rightarrow> bool" where
  "opt P x = (case x of None \<Rightarrow> True | Some a \<Rightarrow> P a)"

definition a_string :: "node js_value \<Rightarrow> bool" where
  "a_string v = (case v of JSString s \<Rightarrow> True | _ \<Rightarrow> False)"

definition a_symbol :: "node js_value \<Rightarrow> bool" where
  "a_symbol v = (case v of JSSymbol s \<Rightarrow> True | _ \<Rightarrow> False)"

definition a_node :: "NodeTypes list \<Rightarrow> node js_value \<Rightarrow> bool" where
  "a_node ks v = (case v of JSNode n \<Rightarrow> of_kind ks n | _ \<Rightarrow> False)"

definition an_array :: "(node js_value \<Rightarrow> bool) \<Rightarrow> node js_value \<Rightarrow> bool" where
  "an_array P v = (case v of JSArray vs \<Rightarrow> list_all P vs | _ \<Rightarrow> False)"

definition element_fields :: "node list \<Rightarrow> node list \<Rightarrow> bool" where
  "element_fields props children =
     (list_all (of_kind [ATTRIBUTE, DIRECTIVE]) props
      \<and> list_all (of_kind TemplateChildNode) children)"

text \<open>
  A node's own fields have the types its interface declares for them. The types that this
  file uses and does not declare (\<open>IfConditionalExpression\<close>, \<open>ForCodegenNode\<close>,
  \<open>PropsExpression\<close>, \<open>SlotsExpression\<close>, \<open>ForRenderListExpression\<close>) put no condition on
  the fields they type: \<open>codegenNode\<close> of \<open>IfNode\<close> and \<open>ForNode\<close>, \<open>props\<close> of
  \<open>VNodeCall\<close> and its \<open>children\<close>, two members of whose union they are. A field of
  type \<open>RenderSlotCall\<close> or \<open>DirectiveArguments\<close> is checked for the interface that these
  extend, a call or an array expression. The nodes below the node are not checked.
\<close>

primrec conforms :: "node \<Rightarrow> bool" where
  "conforms (PlainElementNode l ns tag isSelfClosing props children codegenNode ssrCodegenNode) =
     (element_fields props children
      \<and> opt (of_kind [VNODE_CALL, SIMPLE_EXPRESSION, JS_CACHE_EXPRESSION]) codegenNode
      \<and> opt (of_kind [JS_TEMPLATE_LITERAL]) ssrCodegenNode)"
| "conforms (ComponentNode l ns tag isSelfClosing props children codegenNode ssrCodegenNode) =
     (element_fields props children
      \<and> opt (of_kind [VNODE_CALL, JS_CACHE_EXPRESSION]) codegenNode
      \<and> opt (of_kind [JS_CALL_EXPRESSION]) ssrCodegenNode)"
| "conforms (SlotOutletNode l ns tag isSelfClosing props children codegenNode ssrCodegenNode) =
     (element_fields props children
      \<and> opt (of_kind [JS_CALL_EXPRESSION, JS_CACHE_EXPRESSION]) codegenNode
      \<and> opt (of_kind [JS_CALL_EXPRESSION]) ssrCodegenNode)"
| "conforms (TemplateNode l ns tag isSelfClosing props children) = element_fields props children"
| "conforms (TextNode l content) = True"
| "conforms (CommentNode l content) = True"
| "conforms (AttributeNode l name val) = opt (of_kind [TEXT]) val"
| "conforms (DirectiveNode l name exp arg modifiers parseResult) =
     (opt (of_kind ExpressionNode) exp \<and> opt (of_kind ExpressionNode) arg)"
| "conforms (SimpleExpressionNode l content isStatic isConstant hoisted identifiers
      isRuntimeConstant) =
     opt (of_kind JSChildNode) hoisted"
| "conforms (InterpolationNode l content) = of_kind ExpressionNode content"
| "conforms (CompoundExpressionNode l children identifiers) =
     list_all (\<lambda>v. a_node [SIMPLE_EXPRESSION, COMPOUND_EXPRESSION, INTERPOLATION, TEXT] v
        \<or> a_string v \<or> a_symbol v) children"
| "conforms (IfNode l branches codegenNode) = list_all (of_kind [IF_BRANCH]) branches"
| "conforms (IfBranchNode l condition children) = (opt (of_kind ExpressionNode) condition
      \<and> list_all (of_kind TemplateChildNode) children)"
| "conforms (ForNode l src valueAlias keyAlias objectIndexAlias parseResult children codegenNode) =
     (of_kind ExpressionNode src \<and> opt (of_kind ExpressionNode) valueAlias
      \<and> opt (of_kind ExpressionNode) keyAlias \<and> opt (of_kind ExpressionNode) objectIndexAlias
      \<and> list_all (of_kind TemplateChildNode) children)"
| "conforms (TextCallNode l content codegenNode) = (of_kind TemplateTextChildNode content
      \<and> of_kind [JS_CALL_EXPRESSION, SIMPLE_EXPRESSION] codegenNode)"
| "conforms (VNodeCall l tag props children patchFlag dynamicProps directives isBlock isForBlock) =
     ((a_string tag \<or> a_symbol tag \<or> a_node [JS_CALL_EXPRESSION] tag)
      \<and> opt (of_kind [JS_ARRAY_EXPRESSION]) directives)"
| "conforms (CallExpression l callee arguments) =
     list_all (\<lambda>v. a_string v \<or> a_symbol v \<or> a_node JSChildNode v \<or> a_node SSRCodegenNode v
        \<or> a_node TemplateChildNode v \<or> an_array (a_node TemplateChildNode) v) arguments"
| "conforms (ObjectExpression l properties) = list_all (of_kind [JS_PROPERTY]) properties"
| "conforms (Property l key val) = (of_kind ExpressionNode key \<and> of_kind JSChildNode val)"
| "conforms (ArrayExpression l elements) =
     list_all (\<lambda>v. a_string v \<or> a_node JSChildNode v) elements"
| "conforms (FunctionExpression l params returns body newline isSlot) =
     (opt (\<lambda>v. a_node ExpressionNode v \<or> a_string v
          \<or> an_array (\<lambda>w. a_node ExpressionNode w \<or> a_string w) v) params
      \<and> opt (\<lambda>v. a_node TemplateChildNode v \<or> an_array (a_node TemplateChildNode) v
          \<or> a_node JSChildNode v) returns
      \<and> opt (of_kind [JS_BLOCK_STATEMENT, JS_IF_STATEMENT]) body)"
| "conforms (ConditionalExpression l test consequent alternate newline) =
     (of_kind JSChildNode test \<and> of_kind JSChildNode consequent
      \<and> of_kind JSChildNode alternate)"
| "conforms (CacheExpression l index val isVNode) = of_kind JSChildNode val"
| "conforms (BlockStatement l body) = list_all (of_kind (JSChildNode @ [JS_IF_STATEMENT])) body"
| "conforms (TemplateLiteral l elements) =
     list_all (\<lambda>v. a_string v \<or> a_node JSChildNode v) elements"
| "conforms (IfStatement l test consequent alternate) =
     (of_kind ExpressionNode test \<and> of_kind [JS_BLOCK_STATEMENT] consequent
      \<and> opt (of_kind [JS_IF_STATEMENT, JS_BLOCK_STATEMENT, JS_RETURN_STATEMENT]) alternate)"
| "conforms (AssignmentExpression l left right) =
     (of_kind [SIMPLE_EXPRESSION] left \<and> of_kind JSChildNode right)"
| "conforms (SequenceExpression l expressions) = list_all (of_kind JSChildNode) expressions"
| "conforms (ReturnStatement l returns) =
     (a_node TemplateChildNode returns \<or> an_array (a_node TemplateChildNode) returns
      \<or> a_node JSChildNode returns)"

text \<open>
  \<open>RootNode\<close> is no member of \<open>TemplateChildNode\<close> or \<open>JSChildNode\<close>: no node holds a
  root, so it is a record of its own. Its \<open>type\<close> is \<open>ROOT\<close>.
\<close>

record RootNode =
  loc :: SourceLocation
  children :: "node list"
  helpers :: "symbol list"
  components :: "string list"
  directives :: "string list"
  hoists :: "node option list"
  imports' :: "ImportItem list"
  cached :: nat
  temps :: nat
  ssrHelpers :: "symbol list option"
  codegenNode :: "node option"

section \<open>The transform context's bookkeeping on the root\<close>

text \<open>
  Modelled from the spec: \<open>registerHelper\<close> of the transform context, whose source is
  missing (\<^verbatim>\<open>index.ts\<close> declares \<open>RootNode.helpers\<close> only). The spec: it "adds a
  runtime-helper identifier to the root's helper set (idempotent: a set, not a list with
  duplicates)". \<open>helpers\<close> is declared as an array, so a symbol that is already there is not
  added again.
\<close>

definition registerHelper :: "symbol \<Rightarrow> RootNode \<Rightarrow> RootNode" where
  "registerHelper s root =
     (if s \<in> set (helpers root) then root else root\<lparr>helpers := helpers root @ [s]\<rparr>)"
















text \<open>
  The generated-code node kinds: the call, object, array, property, function, conditional
  and cache expressions, the assignment and sequence expressions, and the return, block
  and if statements and the template literal of the server-side renderer.
\<close>

definition codegen_kinds :: "NodeTypes list" where
  "codegen_kinds =
     [JS_CALL_EXPRESSION, JS_OBJECT_EXPRESSION, JS_ARRAY_EXPRESSION, JS_PROPERTY,
      JS_FUNCTION_EXPRESSION, JS_CONDITIONAL_EXPRESSION, JS_CACHE_EXPRESSION,
      JS_ASSIGNMENT_EXPRESSION, JS_SEQUENCE_EXPRESSION, JS_RETURN_STATEMENT,
      JS_BLOCK_STATEMENT, JS_IF_STATEMENT, JS_TEMPLATE_LITERAL]"

section \<open>Example values\<close>

text \<open>A zero-width span at the start of the file, for a node with no source origin.\<close>

definition synthetic_loc :: SourceLocation where
  "synthetic_loc =
     \<lparr>start = \<lparr>offset = 0, line = 1, column = 1\<rparr>,
      end' = \<lparr>offset = 0, line = 1, column = 1\<rparr>, source = []\<rparr>"

text \<open>The call \<^verbatim>\<open>createVNode("p")\<close>, a generated-code node.\<close>

definition example_call :: node where
  "example_call = CallExpression synthetic_loc (Inl ''createVNode'') [JSString ''p'']"

text \<open>The root of a compilation that has not registered, hoisted or cached anything yet.\<close>

definition example_root :: RootNode where
  "example_root =
     \<lparr>loc = synthetic_loc, children = [], helpers = [], components = [], directives = [],
      hoists = [], imports' = [], cached = 0, temps = 0, ssrHelpers = None,
      codegenNode = None\<rparr>"

text \<open>A simple expression that stands for a hoisted call, and a cache expression around it.\<close>

definition example_hoist_reference :: node where
  "example_hoist_reference =
     SimpleExpressionNode synthetic_loc ''_hoisted_1'' False True (Some example_call) None None"

definition example_cache :: node where
  "example_cache = CacheExpression synthetic_loc 0 example_call True"

text \<open>
  A root after one hoist, as the declarations have it: the hoisted call is entry 0 of
  \<open>hoists\<close>, and the root's codegen node is the simple expression that stands for it.
\<close>

definition example_hoisted_root :: RootNode where
  "example_hoisted_root =
     example_root\<lparr>hoists := [Some example_call], codegenNode := Some example_hoist_reference\<rparr>"

text \<open>A template container without attributes and children.\<close>

definition example_template :: node where
  "example_template = TemplateNode synthetic_loc 0 ''template'' False [] []"



section \<open>Properties of makeMap\<close>

lemma split_comma_not_Nil: "split_comma s \<noteq> []"
  by (induction s) (auto split: list.splits)

lemma split_comma_no_comma: "w \<in> set (split_comma s) \<Longrightarrow> comma \<notin> set w"
proof (induction s arbitrary: w)
  case Nil
  then show ?case by simp
next
  case (Cons c cs)
  show ?case
  proof (cases "c = comma")
    case True
    with Cons show ?thesis by auto
  next
    case False
    obtain v vs where vs: "split_comma cs = v # vs"
      using split_comma_not_Nil [of cs] by (cases "split_comma cs") auto
    with Cons.prems False have "w = c # v \<or> w \<in> set vs" by simp
    then show ?thesis
    proof
      assume "w = c # v"
      moreover have "comma \<notin> set v" using Cons.IH [of v] vs by simp
      ultimately show ?thesis using False by auto
    next
      assume "w \<in> set vs"
      then show ?thesis using Cons.IH [of w] vs by simp
    qed
  qed
qed

lemma join_split_comma: "join_comma (split_comma s) = s"
proof (induction s)
  case Nil
  then show ?case by simp
next
  case (Cons c cs)
  obtain v vs where vs: "split_comma cs = v # vs"
    using split_comma_not_Nil [of cs] by (cases "split_comma cs") auto
  show ?case
  proof (cases "c = comma")
    case True
    with Cons vs show ?thesis by simp
  next
    case False
    with Cons vs show ?thesis by (cases vs) auto
  qed
qed

lemma makeMap_loop_lookup:
  "makeMap_loop list i m k = (if k \<in> set (drop i list) then Some True else m k)"
proof (induction list i m rule: makeMap_loop.induct)
  case (1 list i m)
  show ?case
  proof (cases "i < length list")
    case True
    have d: "drop i list = list ! i # drop (i + 1) list"
      using True by (simp add: Cons_nth_drop_Suc)
    have step: "makeMap_loop list i m = makeMap_loop list (i + 1) (m(list ! i \<mapsto> True))"
      using True by (subst makeMap_loop.simps) simp
    have "makeMap_loop list i m k =
        (if k \<in> set (drop (i + 1) list) then Some True else (m(list ! i \<mapsto> True)) k)"
      unfolding step by (rule "1.IH" [OF True])
    also have "\<dots> = (if k \<in> set (drop i list) then Some True else m k)"
      unfolding d by auto
    finally show ?thesis .
  next
    case False
    then show ?thesis by (subst makeMap_loop.simps) simp
  qed
qed

lemma makeMap_entries:
  "double_not (makeMap_loop (split_comma str) 0 Map.empty k) = (k \<in> set (split_comma str))"
  unfolding makeMap_loop_lookup by simp

lemma makeMap_member:
  "makeMap toLowerCase str e key =
     (if truthy e then toLowerCase key \<in> set (split_comma str)
      else key \<in> set (split_comma str))"
  unfolding makeMap_def Let_def by (simp only: makeMap_entries if_distrib [of "\<lambda>f. f key"])

lemma ascii_lower_no_capital: "0x41 \<le> c \<Longrightarrow> c \<le> 0x5A \<Longrightarrow> c \<notin> set (ascii_lower k)"
proof
  assume c: "0x41 \<le> c" "c \<le> 0x5A" and "c \<in> set (ascii_lower k)"
  then obtain d where d: "c = ascii_lower_unit d" by (auto simp: ascii_lower_def)
  show False
  proof (cases "0x41 \<le> d \<and> d \<le> 0x5A")
    case True
    then have "c = d + 0x20" using d by (simp add: ascii_lower_unit_def)
    with True c show False by (auto simp: word_le_nat_alt unat_word_ariths)
  next
    case False
    then have "c = d" using d by (auto simp: ascii_lower_unit_def)
    with False c show False by simp
  qed
qed

text \<open>
  C3. Without \<open>expectsLowerCase\<close> (left out, or false) the predicate that \<open>makeMap str\<close>
  returns is true of a key exactly when the key is equal to one of the pieces of \<open>str\<close>
  between its commas. A name such as \<open>toString\<close> is not a key unless it is listed, and
  the empty key belongs to the map of the empty string.
\<close>

theorem makeMap_exact:
  "makeMap toLowerCase str None key = (key \<in> set (split_comma str))
   \<and> makeMap toLowerCase str (Some False) key = (key \<in> set (split_comma str))
   \<and> makeMap toLowerCase [] None [] = True
   \<and> makeMap toLowerCase (units ''a,b'') None (units ''toString'') = False
   \<and> makeMap toLowerCase (units ''a,toString'') None (units ''toString'') = True"
  by (simp add: makeMap_member comma_def units_def)

text \<open>
  C9. With \<open>expectsLowerCase\<close> true only the key is lowercased, never the entries: the
  predicate is true of a key exactly when the lowercased key is equal to one of the
  entries of \<open>str\<close> as they are written, and the entries are the pieces of \<open>str\<close> between
  its commas: they have no comma in them and joined with commas they give \<open>str\<close> back.
  So when every entry has a code unit in it that lowercasing never yields, the predicate
  is false of every key; the capital letters are such code units for \<open>toLowerCase\<close>, and
  so \<open>Foo\<close> is out of reach of every key. For a method that lowercases \<open>Span\<close> to
  \<open>span\<close>, the key \<open>Span\<close> finds the entry \<open>span\<close> of \<open>div,span\<close> and does not find the
  entry \<open>Span\<close> of \<open>div,Span\<close>; the whole string \<open>div,span\<close> is no entry of itself.
\<close>

theorem makeMap_lowercase:
  "makeMap toLowerCase str (Some True) key = (toLowerCase key \<in> set (split_comma str))
   \<and> join_comma (split_comma str) = str
   \<and> (\<forall>e \<in> set (split_comma str). comma \<notin> set e)
   \<and> ((\<forall>e \<in> set (split_comma str). \<exists>c \<in> set e. \<forall>k. c \<notin> set (toLowerCase k))
        \<longrightarrow> makeMap toLowerCase str (Some True) key = False)
   \<and> ((\<forall>k. of_char CHR ''F'' \<notin> set (toLowerCase k))
        \<longrightarrow> makeMap toLowerCase (units ''Foo'') (Some True) key = False)
   \<and> (toLowerCase (units ''Span'') = units ''span''
        \<longrightarrow> makeMap toLowerCase (units ''div,span'') (Some True) (units ''Span'') = True
          \<and> makeMap toLowerCase (units ''div,Span'') (Some True) (units ''Span'') = False)
   \<and> (toLowerCase (units ''div,span'') = units ''div,span''
        \<longrightarrow> makeMap toLowerCase (units ''div,span'') (Some True) (units ''div,span'') = False)"
proof (intro conjI impI ballI)
  show m: "makeMap toLowerCase str (Some True) key = (toLowerCase key \<in> set (split_comma str))"
    by (simp add: makeMap_member)
  show "join_comma (split_comma str) = str"
    by (rule join_split_comma)
  show "comma \<notin> set e" if "e \<in> set (split_comma str)" for e
    using that by (rule split_comma_no_comma)
  show "makeMap toLowerCase str (Some True) key = False"
    if "\<forall>e \<in> set (split_comma str). \<exists>c \<in> set e. \<forall>k. c \<notin> set (toLowerCase k)"
    using that unfolding m by blast
  show "makeMap toLowerCase (units ''Foo'') (Some True) key = False"
    if "\<forall>k. of_char CHR ''F'' \<notin> set (toLowerCase k)"
  proof -
    have "of_char CHR ''F'' \<in> set (units ''Foo'')" by (simp add: units_def)
    with that have "toLowerCase key \<noteq> units ''Foo''" by metis
    moreover have "split_comma (units ''Foo'') = [units ''Foo'']"
      by (simp add: units_def comma_def)
    ultimately show ?thesis by (simp add: makeMap_member)
  qed
  have s1: "split_comma (units ''div,span'') = [units ''div'', units ''span'']"
    and s2: "split_comma (units ''div,Span'') = [units ''div'', units ''Span'']"
    by (simp_all add: units_def comma_def)
  have ne: "units ''span'' \<noteq> units ''div''" "units ''span'' \<noteq> units ''Span''"
    "units ''div,span'' \<noteq> units ''div''" "units ''div,span'' \<noteq> units ''span''"
    by (simp_all add: units_def)
  show "makeMap toLowerCase (units ''div,span'') (Some True) (units ''Span'') = True"
    if "toLowerCase (units ''Span'') = units ''span''"
    using that by (simp add: makeMap_member s1)
  show "makeMap toLowerCase (units ''div,Span'') (Some True) (units ''Span'') = False"
    if "toLowerCase (units ''Span'') = units ''span''"
    using that ne by (simp add: makeMap_member s2)
  show "makeMap toLowerCase (units ''div,span'') (Some True) (units ''div,span'') = False"
    if "toLowerCase (units ''div,span'') = units ''div,span''"
    using that ne by (simp add: makeMap_member s1)
qed

text \<open>
  With the lowercasing of ASCII: the entries \<open>Foo\<close> and \<open>Bar\<close> are out of reach of the
  keys \<open>foo\<close> and \<open>FOO\<close>, and the key \<open>Span\<close> finds \<open>span\<close> and not \<open>Span\<close>.
\<close>

theorem makeMap_lowercase_witness:
  "makeMap ascii_lower (units ''Foo,Bar'') (Some True) (units ''foo'') = False
   \<and> makeMap ascii_lower (units ''Foo'') (Some True) (units ''FOO'') = False
   \<and> makeMap ascii_lower (units ''div,span'') (Some True) (units ''Span'') = True
   \<and> makeMap ascii_lower (units ''div,Span'') (Some True) (units ''Span'') = False
   \<and> makeMap ascii_lower (units ''div,span'') (Some True) (units ''div,span'') = False"
proof -
  have F: "\<forall>k. of_char CHR ''F'' \<notin> set (ascii_lower k)"
    by (simp add: ascii_lower_no_capital)
  have B: "\<forall>k. of_char CHR ''B'' \<notin> set (ascii_lower k)"
    by (simp add: ascii_lower_no_capital)
  have "split_comma (units ''Foo,Bar'') = [units ''Foo'', units ''Bar'']"
    by (simp add: units_def comma_def)
  moreover have "of_char CHR ''F'' \<in> set (units ''Foo'')" "of_char CHR ''B'' \<in> set (units ''Bar'')"
    by (simp_all add: units_def)
  ultimately have h: "\<forall>e \<in> set (split_comma (units ''Foo,Bar'')).
      \<exists>c \<in> set e. \<forall>k. c \<notin> set (ascii_lower k)"
    using F B by auto
  have l1: "ascii_lower (units ''Span'') = units ''span''"
    and l2: "ascii_lower (units ''div,span'') = units ''div,span''"
    by (simp_all add: units_def ascii_lower_def ascii_lower_unit_def)
  note t1 = makeMap_lowercase [of ascii_lower "units ''Foo,Bar''" "units ''foo''"]
  note t2 = makeMap_lowercase [of ascii_lower _ "units ''FOO''"]
  from t1 h have 1: "makeMap ascii_lower (units ''Foo,Bar'') (Some True) (units ''foo'') = False"
    by blast
  from t2 F have 2: "makeMap ascii_lower (units ''Foo'') (Some True) (units ''FOO'') = False"
    by blast
  from t1 l1 l2 have 3: "makeMap ascii_lower (units ''div,span'') (Some True) (units ''Span'') = True"
    "makeMap ascii_lower (units ''div,Span'') (Some True) (units ''Span'') = False"
    "makeMap ascii_lower (units ''div,span'') (Some True) (units ''div,span'') = False"
    by blast+
  from 1 2 3 show ?thesis by (intro conjI)
qed

section \<open>Properties of the entry modules\<close>

text \<open>
  C10. Each entry module exports the \<open>.prod\<close> bundle exactly when \<open>NODE_ENV\<close> is the
  string \<open>production\<close>, and the development bundle for every other value and when the
  variable is not set; no other variable of the environment matters.
\<close>

theorem entry_selects_bundle:
  "(compiler_ssr_index env = ''./dist/compiler-ssr.cjs.prod.js'')
      = (env ''NODE_ENV'' = Some ''production'')
   \<and> (compiler_ssr_index env = ''./dist/compiler-ssr.cjs.js'')
      = (env ''NODE_ENV'' \<noteq> Some ''production'')
   \<and> (template_explorer_index env = ''./dist/template-explorer.cjs.prod.js'')
      = (env ''NODE_ENV'' = Some ''production'')
   \<and> (template_explorer_index env = ''./dist/template-explorer.cjs.js'')
      = (env ''NODE_ENV'' \<noteq> Some ''production'')
   \<and> compiler_ssr_index env = compiler_ssr_index (only_NODE_ENV env)
   \<and> template_explorer_index env = template_explorer_index (only_NODE_ENV env)
   \<and> compiler_ssr_index Map.empty = ''./dist/compiler-ssr.cjs.js''
   \<and> template_explorer_index Map.empty = ''./dist/template-explorer.cjs.js''
   \<and> compiler_ssr_index [''NODE_ENV'' \<mapsto> ''Production''] = ''./dist/compiler-ssr.cjs.js''"
  by (simp add: compiler_ssr_index_def template_explorer_index_def only_NODE_ENV_def)

section \<open>Properties of the helper and hoist bookkeeping\<close>

lemma registerHelper_set: "set (helpers (registerHelper s root)) = insert s (set (helpers root))"
  by (auto simp: registerHelper_def)

lemma registerHelper_distinct:
  "distinct (helpers root) \<Longrightarrow> distinct (helpers (registerHelper s root))"
  by (auto simp: registerHelper_def)

lemma registerHelper_fold_distinct:
  "distinct (helpers root) \<Longrightarrow> distinct (helpers (fold registerHelper ss root))"
  by (induction ss arbitrary: root) (auto simp: registerHelper_distinct)

text \<open>
  C2. \<open>registerHelper\<close> is idempotent: registering a symbol twice leaves the root as
  registering it once does, the symbols in \<open>helpers\<close> are those that were there and the
  new one, and \<open>helpers\<close> has no symbol twice after any number of registrations when it had
  none twice before.
\<close>

theorem registerHelper_idempotent:
  "registerHelper s (registerHelper s root) = registerHelper s root
   \<and> set (helpers (registerHelper s root)) = insert s (set (helpers root))
   \<and> (distinct (helpers root) \<longrightarrow>
        (\<forall>k \<le> length ss. distinct (helpers (fold registerHelper (take k ss) root))))"
proof (intro conjI impI allI)
  show "registerHelper s (registerHelper s root) = registerHelper s root"
    by (simp add: registerHelper_def)
  show "set (helpers (registerHelper s root)) = insert s (set (helpers root))"
    by (rule registerHelper_set)
  show "distinct (helpers (fold registerHelper (take k ss) root))"
    if "distinct (helpers root)" for k
    using that by (rule registerHelper_fold_distinct)
qed

text \<open>Three registrations, one of them a repetition, on a root without helpers.\<close>

theorem registerHelper_idempotent_witness:
  "distinct (helpers example_root)
   \<and> helpers (fold registerHelper [Symbol 1, Symbol 2, Symbol 1] example_root)
       = [Symbol 1, Symbol 2]
   \<and> distinct (helpers (fold registerHelper (take 3 [Symbol 1, Symbol 2, Symbol 1]) example_root))"
proof -
  have d: "distinct (helpers example_root)"
    by (simp add: example_root_def)
  have e: "helpers (fold registerHelper [Symbol 1, Symbol 2, Symbol 1] example_root)
       = [Symbol 1, Symbol 2]"
    by (simp add: example_root_def registerHelper_def)
  have k: "(3::nat) \<le> length [Symbol 1, Symbol 2, Symbol 1]"
    by simp
  have "distinct (helpers example_root) \<longrightarrow>
      (\<forall>k \<le> length [Symbol 1, Symbol 2, Symbol 1].
         distinct (helpers (fold registerHelper (take k [Symbol 1, Symbol 2, Symbol 1]) example_root)))"
    using registerHelper_idempotent [of "Symbol 1" example_root "[Symbol 1, Symbol 2, Symbol 1]"]
    by (elim conjE)
  then have "distinct (helpers
      (fold registerHelper (take 3 [Symbol 1, Symbol 2, Symbol 1]) example_root))"
    using d k by (elim impE allE [of _ 3])
  then show ?thesis using d e by (intro conjI)
qed






















section \<open>Properties of the node model\<close>

text \<open>
  C1 fails on the declarations. The simple expression that stands for a hoist holds the
  hoisted node itself in \<open>hoisted\<close>, not a slot index: in the example the hoisted call is
  held by entry 0 of the root's \<open>hoists\<close> and by the expression as well. The cache
  expression holds the node it wraps in \<open>value\<close> beside its slot index. Both examples have
  the types that their interfaces declare.
\<close>

theorem hoist_reference_holds_node:
  "conforms example_hoist_reference
   \<and> hoists example_hoisted_root ! 0 = Some example_call
   \<and> codegenNode example_hoisted_root = Some example_hoist_reference
   \<and> held_nodes example_hoist_reference = [example_call]
   \<and> conforms example_cache
   \<and> held_nodes example_cache = [example_call]"
  by (simp add: example_hoisted_root_def example_hoist_reference_def example_cache_def
      example_call_def option_nodes_def opt_def of_kind_def JSChildNode_def ExpressionNode_def)

text \<open>
  C1, amended. A cache expression carries its slot index and holds the wrapped value, a
  generated-code node, itself; a simple expression holds the hoisted node itself when
  \<open>hoisted\<close> is set, and no node otherwise.
\<close>

theorem references_hold_nodes:
  "conforms n \<longrightarrow>
     (node_type n = JS_CACHE_EXPRESSION \<longrightarrow>
        (\<exists>l i v b. n = CacheExpression l i v b \<and> held_nodes n = [v] \<and> of_kind JSChildNode v))
     \<and> (node_type n = SIMPLE_EXPRESSION \<longrightarrow>
        (\<exists>l c s k h ids rc. n = SimpleExpressionNode l c s k h ids rc
           \<and> held_nodes n = option_nodes h \<and> opt (of_kind JSChildNode) h))"
  by (cases n) simp_all

theorem references_hold_nodes_witness:
  "conforms example_cache \<and> node_type example_cache = JS_CACHE_EXPRESSION
   \<and> (\<exists>l i v b. example_cache = CacheExpression l i v b \<and> held_nodes example_cache = [v]
        \<and> of_kind JSChildNode v)"
proof -
  have c: "conforms example_cache"
    by (simp add: example_cache_def example_call_def of_kind_def JSChildNode_def)
  have t: "node_type example_cache = JS_CACHE_EXPRESSION"
    by (simp add: example_cache_def)
  from references_hold_nodes [of example_cache] c t
  have "\<exists>l i v b. example_cache = CacheExpression l i v b \<and> held_nodes example_cache = [v]
        \<and> of_kind JSChildNode v"
    by simp
  with c t show ?thesis by (intro conjI)
qed

lemma element_examples:
  "conforms (PlainElementNode l 0 ''p'' False [] [] c None) = opt (of_kind [VNODE_CALL, SIMPLE_EXPRESSION, JS_CACHE_EXPRESSION]) c"
  "conforms (ComponentNode l 0 ''p'' False [] [] c None) = opt (of_kind [VNODE_CALL, JS_CACHE_EXPRESSION]) c"
  "conforms (SlotOutletNode l 0 ''p'' False [] [] c None) = opt (of_kind [JS_CALL_EXPRESSION, JS_CACHE_EXPRESSION]) c"
  by (simp_all add: element_fields_def opt_def)

text \<open>
  C5. An element whose tag type is the template container has no codegen node: reading
  \<open>codegenNode\<close> off it gives \<open>undefined\<close>. Each of the other three tag types has elements
  with a codegen node and elements without one.
\<close>

theorem template_never_has_codegenNode:
  "(tagType n = Some ElementTypes_TEMPLATE \<longrightarrow> node_codegenNode n = None)
   \<and> (\<forall>t \<in> {ElementTypes_ELEMENT, ElementTypes_COMPONENT, ElementTypes_SLOT}.
        (\<exists>e c. conforms e \<and> tagType e = Some t \<and> node_codegenNode e = Some c)
        \<and> (\<exists>e. conforms e \<and> tagType e = Some t \<and> node_codegenNode e = None))"
proof (intro conjI impI ballI)
  show "node_codegenNode n = None" if "tagType n = Some ElementTypes_TEMPLATE"
    using that by (cases n) simp_all
next
  fix t assume t: "t \<in> {ElementTypes_ELEMENT, ElementTypes_COMPONENT, ElementTypes_SLOT}"
  have c: "conforms example_cache" "node_type example_cache = JS_CACHE_EXPRESSION"
    by (simp_all add: example_cache_def example_call_def of_kind_def JSChildNode_def)
  let ?P = "PlainElementNode synthetic_loc 0 ''p'' False [] []"
  let ?C = "ComponentNode synthetic_loc 0 ''p'' False [] []"
  let ?S = "SlotOutletNode synthetic_loc 0 ''p'' False [] []"
  have some: "conforms (?P (Some example_cache) None)" "conforms (?C (Some example_cache) None)"
    "conforms (?S (Some example_cache) None)"
    using c by (simp_all add: element_fields_def opt_def of_kind_def)
  have none: "conforms (?P None None)" "conforms (?C None None)" "conforms (?S None None)"
    by (simp_all add: element_fields_def opt_def)
  from t consider "t = ElementTypes_ELEMENT" | "t = ElementTypes_COMPONENT" | "t = ElementTypes_SLOT"
    by blast
  then show "\<exists>e c. conforms e \<and> tagType e = Some t \<and> node_codegenNode e = Some c"
  proof cases
    case 1
    have "conforms (?P (Some example_cache) None) \<and> tagType (?P (Some example_cache) None) = Some t
        \<and> node_codegenNode (?P (Some example_cache) None) = Some example_cache"
      using some 1 by simp
    then show ?thesis by blast
  next
    case 2
    have "conforms (?C (Some example_cache) None) \<and> tagType (?C (Some example_cache) None) = Some t
        \<and> node_codegenNode (?C (Some example_cache) None) = Some example_cache"
      using some 2 by simp
    then show ?thesis by blast
  next
    case 3
    have "conforms (?S (Some example_cache) None) \<and> tagType (?S (Some example_cache) None) = Some t
        \<and> node_codegenNode (?S (Some example_cache) None) = Some example_cache"
      using some 3 by simp
    then show ?thesis by blast
  qed
  from t consider "t = ElementTypes_ELEMENT" | "t = ElementTypes_COMPONENT" | "t = ElementTypes_SLOT"
    by blast
  then show "\<exists>e. conforms e \<and> tagType e = Some t \<and> node_codegenNode e = None"
  proof cases
    case 1
    have "conforms (?P None None) \<and> tagType (?P None None) = Some t
        \<and> node_codegenNode (?P None None) = None"
      using none 1 by simp
    then show ?thesis by blast
  next
    case 2
    have "conforms (?C None None) \<and> tagType (?C None None) = Some t
        \<and> node_codegenNode (?C None None) = None"
      using none 2 by simp
    then show ?thesis by blast
  next
    case 3
    have "conforms (?S None None) \<and> tagType (?S None None) = Some t
        \<and> node_codegenNode (?S None None) = None"
      using none 3 by simp
    then show ?thesis by blast
  qed
qed

theorem template_never_has_codegenNode_witness:
  "conforms example_template \<and> tagType example_template = Some ElementTypes_TEMPLATE
   \<and> node_codegenNode example_template = None"
proof -
  have c: "conforms example_template"
    by (simp add: example_template_def element_fields_def)
  have t: "tagType example_template = Some ElementTypes_TEMPLATE"
    by (simp add: example_template_def)
  from template_never_has_codegenNode [of example_template] t
  have "node_codegenNode example_template = None"
    by (elim conjE impE)
  with c t show ?thesis by (intro conjI)
qed

text \<open>
  C8. Every generated-code node kind carries a span: \<open>node_loc\<close> reads it off any node, and
  for each of the thirteen kinds and each span, a zero-width one too, there is a node of
  that kind with the declared field types that carries this span.
\<close>

theorem codegen_nodes_carry_span:
  "\<forall>k \<in> set codegen_kinds. \<forall>l. \<exists>n. conforms n \<and> node_type n = k \<and> node_loc n = l"
proof (intro ballI allI)
  fix k l
  assume k: "k \<in> set codegen_kinds"
  define e where "e = SimpleExpressionNode l [] False False None None None"
  define ns where "ns =
    [CallExpression l (Inl []) [], ObjectExpression l [], ArrayExpression l [],
     Property l e e, FunctionExpression l None None None False False,
     ConditionalExpression l e e e False, CacheExpression l 0 e False,
     AssignmentExpression l e e, SequenceExpression l [], ReturnStatement l (JSNode e),
     BlockStatement l [], IfStatement l e (BlockStatement l []) None, TemplateLiteral l []]"
  have e: "node_type e = SIMPLE_EXPRESSION"
    by (simp add: e_def)
  have kinds: "map node_type ns = codegen_kinds"
    by (simp add: ns_def codegen_kinds_def)
  have ok: "\<forall>n \<in> set ns. conforms n \<and> node_loc n = l"
    by (simp add: ns_def e of_kind_def opt_def a_node_def JSChildNode_def ExpressionNode_def)
  from k have "k \<in> node_type ` set ns"
    unfolding kinds [symmetric] by simp
  then obtain n where "n \<in> set ns" and "node_type n = k"
    by auto
  with ok have "conforms n \<and> node_type n = k \<and> node_loc n = l"
    by simp
  then show "\<exists>n. conforms n \<and> node_type n = k \<and> node_loc n = l" ..
qed

text \<open>A cache expression with the zero-width span.\<close>

theorem codegen_nodes_carry_span_witness:
  "JS_CACHE_EXPRESSION \<in> set codegen_kinds
   \<and> offset (start synthetic_loc) = offset (end' synthetic_loc)
   \<and> (\<exists>n. conforms n \<and> node_type n = JS_CACHE_EXPRESSION \<and> node_loc n = synthetic_loc)"
proof -
  have k: "JS_CACHE_EXPRESSION \<in> set codegen_kinds"
    by (simp add: codegen_kinds_def)
  have z: "offset (start synthetic_loc) = offset (end' synthetic_loc)"
    by (simp add: synthetic_loc_def)
  from codegen_nodes_carry_span k
  have "\<forall>l. \<exists>n. conforms n \<and> node_type n = JS_CACHE_EXPRESSION \<and> node_loc n = l"
    by (rule bspec)
  then have "\<exists>n. conforms n \<and> node_type n = JS_CACHE_EXPRESSION \<and> node_loc n = synthetic_loc"
    by (rule spec)
  with k z show ?thesis by (intro conjI)
qed

end
